theory Spec2Isabelle
  imports Main "HOL-Library.Sublist"
begin

section \<open>Python values, requests and errors\<close>

text \<open>
  The views of \<^verbatim>\<open>enterprise/api/v1/views.py\<close> pass dynamically typed payloads between
  the catalog client, the serializers and the response. A payload is a JSON-like Python
  value; \<open>truthy\<close> is Python's truth test, so that \<^verbatim>\<open>not courses\<close> is \<open>\<not> truthy courses\<close>.
\<close>

datatype py =
    PNone
  | PBool bool
  | PInt int
  | PStr string
  | PList "py list"
  | PDict "(string \<times> py) list"

fun truthy :: "py \<Rightarrow> bool" where
  "truthy PNone = False"
| "truthy (PBool b) = b"
| "truthy (PInt n) = (n \<noteq> 0)"
| "truthy (PStr s) = (s \<noteq> [])"
| "truthy (PList xs) = (xs \<noteq> [])"
| "truthy (PDict kvs) = (kvs \<noteq> [])"

text \<open>Python's \<^verbatim>\<open>sub in s\<close> on strings.\<close>

fun contains :: "string \<Rightarrow> string \<Rightarrow> bool" where
  "contains [] sub = (sub = [])"
| "contains (c # cs) sub = (prefix sub (c # cs) \<or> contains cs sub)"

record user =
  username :: string
  is_authenticated :: bool

text \<open>
  The request as the views read it: \<^verbatim>\<open>request.method\<close>, \<^verbatim>\<open>request.get_full_path()\<close>,
  \<^verbatim>\<open>request.GET\<close> (the query parameters, in order, keys possibly repeated) and
  \<^verbatim>\<open>request.user\<close>, the first and the last as \<open>req_method\<close> and \<open>req_user\<close>.
  \<open>kwargs_pk\<close> is the primary key that the URL of the request names
  (\<^verbatim>\<open>request.resolver_match.kwargs\<close>, which the framework also keeps as the
  \<^verbatim>\<open>kwargs\<close> of the view): \<open>None\<close> for a request on the collection of a resource,
  as a list or a create is. The actions below take \<^verbatim>\<open>pk\<close> as an argument of their
  own, as the methods do, and do not read it.
\<close>

type_synonym query = "(string \<times> string) list"

record request =
  req_method :: string
  get_full_path :: string
  GET :: query
  req_user :: user
  kwargs_pk :: "string option"

datatype error =
    NotFound string
  | Http404
  | PermissionDenied

datatype response = Response py

text \<open>
  What a view does besides returning: the error-level log lines it writes and the calls
  it makes to the catalog client, in the order they happen.
\<close>

datatype event =
    LogError string
  | GetPaginatedCatalogs user query
  | GetCatalog user "string option"
  | GetPaginatedCatalogCourses user py query

type_synonym trace = "event list"

section \<open>The class attributes of the view sets\<close>

datatype permission_class =
    IsAuthenticated
  | IsServiceUserOrReadOnly
  | IsStaffUserOrLinkedToEnterprise
  | AllowAny

datatype authentication_class =
    JwtAuthentication
  | BearerAuthentication
  | SessionAuthentication
  | BasicAuthentication

datatype throttle_class =
    ServiceUserThrottle
  | AnonRateThrottle
  | UserRateThrottle

datatype filter_backend =
    OrderingFilter
  | DjangoFilterBackend
  | EnterpriseCustomerUserFilterBackend

datatype serializer_class =
    EnterpriseCustomerSerializer
  | EnterpriseCourseEnrollmentReadOnlySerializer
  | EnterpriseCourseEnrollmentWriteSerializer
  | SiteSerializer
  | UserSerializer
  | EnterpriseCustomerUserReadOnlySerializer
  | EnterpriseCustomerUserWriteSerializer
  | EnterpriseCustomerBrandingConfigurationSerializer
  | UserDataSharingConsentAuditSerializer
  | EnterpriseCustomerEntitlementSerializer
  | EnterpriseCourseCatalogReadOnlySerializer

datatype queryset_expr =
    EnterpriseCustomer_active_customers_all
  | EnterpriseCourseEnrollment_objects_all
  | Site_objects_all
  | User_objects_all
  | EnterpriseCustomerUser_objects_all
  | EnterpriseCustomerBrandingConfiguration_objects_all
  | UserDataSharingConsentAudit_objects_all
  | EnterpriseCustomerEntitlement_objects_all

text \<open>
  The classes of the module, and the three classes of the REST framework they derive
  from. \<open>bases\<close> is the base list of each \<^verbatim>\<open>class\<close> statement (\<^verbatim>\<open>object\<close> left out).
\<close>

datatype view_class =
    EnterpriseModelViewSet
  | EnterpriseReadOnlyModelViewSet
  | EnterpriseReadWriteModelViewSet
  | EnterpriseCustomerViewSet
  | EnterpriseCourseEnrollmentViewSet
  | SiteViewSet
  | UserViewSet
  | EnterpriseCustomerUserViewSet
  | EnterpriseCustomerBrandingConfigurationViewSet
  | UserDataSharingConsentAuditViewSet
  | EnterpriseCustomerEntitlementViewSet
  | EnterpriseCatalogViewSet
  | viewsets_ReadOnlyModelViewSet
  | viewsets_ModelViewSet
  | viewsets_ViewSet

fun bases :: "view_class \<Rightarrow> view_class list" where
  "bases EnterpriseModelViewSet = []"
| "bases EnterpriseReadOnlyModelViewSet = [EnterpriseModelViewSet, viewsets_ReadOnlyModelViewSet]"
| "bases EnterpriseReadWriteModelViewSet = [EnterpriseModelViewSet, viewsets_ModelViewSet]"
| "bases EnterpriseCustomerViewSet = [EnterpriseReadOnlyModelViewSet]"
| "bases EnterpriseCourseEnrollmentViewSet = [EnterpriseReadWriteModelViewSet]"
| "bases SiteViewSet = [EnterpriseReadOnlyModelViewSet]"
| "bases UserViewSet = [EnterpriseReadOnlyModelViewSet]"
| "bases EnterpriseCustomerUserViewSet = [EnterpriseReadWriteModelViewSet]"
| "bases EnterpriseCustomerBrandingConfigurationViewSet = [EnterpriseReadOnlyModelViewSet]"
| "bases UserDataSharingConsentAuditViewSet = [EnterpriseReadOnlyModelViewSet]"
| "bases EnterpriseCustomerEntitlementViewSet = [EnterpriseReadOnlyModelViewSet]"
| "bases EnterpriseCatalogViewSet = [viewsets_ViewSet]"
| "bases viewsets_ReadOnlyModelViewSet = []"
| "bases viewsets_ModelViewSet = []"
| "bases viewsets_ViewSet = []"

text \<open>
  The method resolution order: the class, then the orders of its bases from left to
  right. The hierarchy has no class with two paths to the same base, so this is Python's
  linearisation; three levels reach every base.
\<close>

fun linearize :: "nat \<Rightarrow> view_class \<Rightarrow> view_class list" where
  "linearize 0 c = [c]"
| "linearize (Suc n) c = c # concat (map (linearize n) (bases c))"

definition mro :: "view_class \<Rightarrow> view_class list" where
  "mro c = linearize 3 c"

text \<open>The body of a class statement: the attributes it assigns, \<open>None\<close> where it assigns none.\<close>

record class_dict =
  queryset :: "queryset_expr option"
  serializer_class :: "serializer_class option"
  filter_backends :: "filter_backend list option"
  permission_classes :: "permission_class list option"
  authentication_classes :: "authentication_class list option"
  throttle_classes :: "throttle_class list option"
  FIELDS :: "string list option"
  filter_fields :: "string list option"
  ordering_fields :: "string list option"

definition no_attrs :: class_dict where
  "no_attrs = \<lparr> queryset = None, serializer_class = None, filter_backends = None,
     permission_classes = None, authentication_classes = None, throttle_classes = None,
     FIELDS = None, filter_fields = None, ordering_fields = None \<rparr>"

text \<open>
  The framework's view classes take their policy from the project settings, which this
  module does not fix: they are a parameter.
\<close>

record api_settings =
  DEFAULT_FILTER_BACKENDS :: "filter_backend list"
  DEFAULT_PERMISSION_CLASSES :: "permission_class list"
  DEFAULT_AUTHENTICATION_CLASSES :: "authentication_class list"
  DEFAULT_THROTTLE_CLASSES :: "throttle_class list"

definition framework_attrs :: "api_settings \<Rightarrow> class_dict" where
  "framework_attrs s = no_attrs \<lparr>
     filter_backends := Some (DEFAULT_FILTER_BACKENDS s),
     permission_classes := Some (DEFAULT_PERMISSION_CLASSES s),
     authentication_classes := Some (DEFAULT_AUTHENTICATION_CLASSES s),
     throttle_classes := Some (DEFAULT_THROTTLE_CLASSES s) \<rparr>"

definition with_fields :: "string list \<Rightarrow> class_dict \<Rightarrow> class_dict" where
  "with_fields fs d = d \<lparr> FIELDS := Some fs, filter_fields := Some fs, ordering_fields := Some fs \<rparr>"

fun class_body :: "api_settings \<Rightarrow> view_class \<Rightarrow> class_dict" where
  "class_body s EnterpriseModelViewSet = no_attrs \<lparr>
     filter_backends := Some [OrderingFilter, DjangoFilterBackend],
     permission_classes := Some [IsAuthenticated],
     authentication_classes := Some [JwtAuthentication, BearerAuthentication, SessionAuthentication],
     throttle_classes := Some [ServiceUserThrottle] \<rparr>"
| "class_body s EnterpriseReadOnlyModelViewSet = no_attrs"
| "class_body s EnterpriseReadWriteModelViewSet = no_attrs \<lparr>
     permission_classes := Some [IsAuthenticated, IsServiceUserOrReadOnly] \<rparr>"
| "class_body s EnterpriseCustomerViewSet =
     with_fields [''uuid'', ''name'', ''catalog'', ''active'', ''site'',
                  ''enable_data_sharing_consent'', ''enforce_data_sharing_consent'']
       (no_attrs \<lparr> queryset := Some EnterpriseCustomer_active_customers_all,
                   serializer_class := Some EnterpriseCustomerSerializer \<rparr>)"
| "class_body s EnterpriseCourseEnrollmentViewSet =
     with_fields [''enterprise_customer_user'', ''consent_granted'', ''course_id'']
       (no_attrs \<lparr> queryset := Some EnterpriseCourseEnrollment_objects_all \<rparr>)"
| "class_body s SiteViewSet =
     with_fields [''domain'', ''name'']
       (no_attrs \<lparr> queryset := Some Site_objects_all,
                   serializer_class := Some SiteSerializer \<rparr>)"
| "class_body s UserViewSet =
     with_fields [''username'', ''first_name'', ''last_name'', ''email'', ''is_staff'', ''is_active'']
       (no_attrs \<lparr> queryset := Some User_objects_all,
                   serializer_class := Some UserSerializer \<rparr>)"
| "class_body s EnterpriseCustomerUserViewSet =
     with_fields [''enterprise_customer'', ''user_id'']
       (no_attrs \<lparr> queryset := Some EnterpriseCustomerUser_objects_all,
                   filter_backends := Some [OrderingFilter, DjangoFilterBackend,
                                            EnterpriseCustomerUserFilterBackend] \<rparr>)"
| "class_body s EnterpriseCustomerBrandingConfigurationViewSet =
     with_fields [''enterprise_customer'']
       (no_attrs \<lparr> queryset := Some EnterpriseCustomerBrandingConfiguration_objects_all,
                   serializer_class := Some EnterpriseCustomerBrandingConfigurationSerializer \<rparr>)"
| "class_body s UserDataSharingConsentAuditViewSet =
     with_fields [''user'', ''state'']
       (no_attrs \<lparr> queryset := Some UserDataSharingConsentAudit_objects_all,
                   serializer_class := Some UserDataSharingConsentAuditSerializer \<rparr>)"
| "class_body s EnterpriseCustomerEntitlementViewSet =
     with_fields [''enterprise_customer'', ''entitlement_id'']
       (no_attrs \<lparr> queryset := Some EnterpriseCustomerEntitlement_objects_all,
                   serializer_class := Some EnterpriseCustomerEntitlementSerializer \<rparr>)"
| "class_body s EnterpriseCatalogViewSet = no_attrs \<lparr>
     serializer_class := Some EnterpriseCourseCatalogReadOnlySerializer,
     permission_classes := Some [IsAuthenticated],
     authentication_classes := Some [JwtAuthentication, BearerAuthentication, SessionAuthentication],
     throttle_classes := Some [ServiceUserThrottle] \<rparr>"
| "class_body s viewsets_ReadOnlyModelViewSet = framework_attrs s"
| "class_body s viewsets_ModelViewSet = framework_attrs s"
| "class_body s viewsets_ViewSet = framework_attrs s"

text \<open>Attribute lookup on a class: the first class of the resolution order that assigns it.\<close>

fun first_some :: "'a option list \<Rightarrow> 'a option" where
  "first_some [] = None"
| "first_some (None # xs) = first_some xs"
| "first_some (Some v # xs) = Some v"

definition getattr :: "api_settings \<Rightarrow> view_class \<Rightarrow> (class_dict \<Rightarrow> 'a option) \<Rightarrow> 'a option" where
  "getattr s c sel = first_some (map (\<lambda>k. sel (class_body s k)) (mro c))"

text \<open>
  \<^verbatim>\<open>detail_route(**kwargs)\<close> sets its keyword arguments on the view that serves the
  decorated action, over the attributes of the class. The actions are named as the methods
  are; every other action of a class has no keyword arguments.
\<close>

fun detail_route_kwargs :: "view_class \<Rightarrow> string \<Rightarrow> class_dict" where
  "detail_route_kwargs c a =
     (if c = EnterpriseCustomerViewSet \<and> a = ''courses'' then no_attrs \<lparr>
        permission_classes := Some [IsAuthenticated, IsServiceUserOrReadOnly,
                                    IsStaffUserOrLinkedToEnterprise],
        authentication_classes := Some [JwtAuthentication, BearerAuthentication,
                                        SessionAuthentication],
        throttle_classes := Some [ServiceUserThrottle] \<rparr>
      else no_attrs)"

definition view_attr ::
  "api_settings \<Rightarrow> view_class \<Rightarrow> string \<Rightarrow> (class_dict \<Rightarrow> 'a option) \<Rightarrow> 'a option" where
  "view_attr s c a sel =
     (case sel (detail_route_kwargs c a) of
        Some v \<Rightarrow> Some v
      | None \<Rightarrow> getattr s c sel)"

text \<open>The classes this module defines, as opposed to the framework's.\<close>

definition module_classes :: "view_class list" where
  "module_classes =
     [EnterpriseModelViewSet, EnterpriseReadOnlyModelViewSet, EnterpriseReadWriteModelViewSet,
      EnterpriseCustomerViewSet, EnterpriseCourseEnrollmentViewSet, SiteViewSet, UserViewSet,
      EnterpriseCustomerUserViewSet, EnterpriseCustomerBrandingConfigurationViewSet,
      UserDataSharingConsentAuditViewSet, EnterpriseCustomerEntitlementViewSet,
      EnterpriseCatalogViewSet]"

section \<open>Permissions and object lookup\<close>

text \<open>
  What the permission classes consult and this module does not define: which users are
  service users, who owns an object, and the two hooks of
  \<^verbatim>\<open>IsStaffUserOrLinkedToEnterprise\<close>.
\<close>

record 'o permission_env =
  is_service_user :: "user \<Rightarrow> bool"
  is_owner :: "user \<Rightarrow> 'o \<Rightarrow> bool"
  staff_or_linked_request :: "request \<Rightarrow> bool"
  staff_or_linked_object :: "request \<Rightarrow> 'o \<Rightarrow> bool"

definition SAFE_METHODS :: "string list" where
  "SAFE_METHODS = [''GET'', ''HEAD'', ''OPTIONS'']"

text \<open>
  Modelled from the spec: the request-level hook of the permission class
  \<^verbatim>\<open>IsServiceUserOrReadOnly\<close> of \<^verbatim>\<open>enterprise/api/permissions.py\<close>, which is not
  among the sources. The specification says that write-capable resources additionally
  require the caller be a "service user" or the object's owner. A request with a safe
  method is read-only and passes; a write by a service user passes; a write on an object
  passes on to the object-level hook, where the owner is known; a write on the collection
  (a create) has no object, hence no owner, and only a service user may make it.
\<close>

definition IsServiceUserOrReadOnly_has_permission ::
  "'o permission_env \<Rightarrow> request \<Rightarrow> bool" where
  "IsServiceUserOrReadOnly_has_permission env r =
     (req_method r \<in> set SAFE_METHODS \<or> is_service_user env (req_user r)
      \<or> kwargs_pk r \<noteq> None)"

text \<open>
  Modelled from the spec: the object-level hook of \<^verbatim>\<open>IsServiceUserOrReadOnly\<close>
  (\<^verbatim>\<open>enterprise/api/permissions.py\<close>, not among the sources). By the same sentence
  of the specification, a write on an object requires the caller be a service user or the
  owner of the object; a request with a safe method passes.
\<close>

definition IsServiceUserOrReadOnly_has_object_permission ::
  "'o permission_env \<Rightarrow> request \<Rightarrow> 'o \<Rightarrow> bool" where
  "IsServiceUserOrReadOnly_has_object_permission env r obj =
     (req_method r \<in> set SAFE_METHODS \<or> is_service_user env (req_user r)
      \<or> is_owner env (req_user r) obj)"

text \<open>
  The request-level hook of each permission class. \<^verbatim>\<open>IsAuthenticated\<close> and
  \<^verbatim>\<open>AllowAny\<close> are the framework's; the hook of
  \<^verbatim>\<open>IsStaffUserOrLinkedToEnterprise\<close> is a parameter.
\<close>

fun has_permission :: "'o permission_env \<Rightarrow> permission_class \<Rightarrow> request \<Rightarrow> bool" where
  "has_permission env IsAuthenticated r = is_authenticated (req_user r)"
| "has_permission env AllowAny r = True"
| "has_permission env IsServiceUserOrReadOnly r = IsServiceUserOrReadOnly_has_permission env r"
| "has_permission env IsStaffUserOrLinkedToEnterprise r = staff_or_linked_request env r"

text \<open>
  The object-level hook of each permission class; the framework's classes do not define
  it, and grant.
\<close>

fun has_object_permission ::
  "'o permission_env \<Rightarrow> permission_class \<Rightarrow> request \<Rightarrow> 'o \<Rightarrow> bool" where
  "has_object_permission env IsAuthenticated r obj = True"
| "has_object_permission env AllowAny r obj = True"
| "has_object_permission env IsServiceUserOrReadOnly r obj =
     IsServiceUserOrReadOnly_has_object_permission env r obj"
| "has_object_permission env IsStaffUserOrLinkedToEnterprise r obj =
     staff_or_linked_object env r obj"

text \<open>
  The framework's two checks: every permission class of the view must grant. A refusal is
  an exception of the framework (\<^verbatim>\<open>PermissionDenied\<close>, or \<^verbatim>\<open>NotAuthenticated\<close>
  for a request without credentials; the model does not tell them apart).
\<close>

definition check_permissions ::
  "'o permission_env \<Rightarrow> permission_class list \<Rightarrow> request \<Rightarrow> error + unit" where
  "check_permissions env perms r =
     (if list_all (\<lambda>p. has_permission env p r) perms then Inr () else Inl PermissionDenied)"

definition check_object_permissions ::
  "'o permission_env \<Rightarrow> permission_class list \<Rightarrow> request \<Rightarrow> 'o \<Rightarrow> error + unit" where
  "check_object_permissions env perms r obj =
     (if list_all (\<lambda>p. has_object_permission env p r obj) perms then Inr ()
      else Inl PermissionDenied)"

definition get_permissions :: "api_settings \<Rightarrow> view_class \<Rightarrow> string \<Rightarrow> permission_class list" where
  "get_permissions s c a =
     (case view_attr s c a permission_classes of None \<Rightarrow> [] | Some ps \<Rightarrow> ps)"

text \<open>
  The storage layer as the views see it: the primary key of a row, and which rows the
  filter backends keep for a request.
\<close>

record 'o orm =
  pk_of :: "'o \<Rightarrow> string"
  matches :: "request \<Rightarrow> 'o \<Rightarrow> bool"

definition filter_queryset :: "'o orm \<Rightarrow> request \<Rightarrow> 'o list \<Rightarrow> 'o list" where
  "filter_queryset db r rows = filter (matches db r) rows"

text \<open>
  The framework's \<^verbatim>\<open>get_object\<close>: the row of the filtered queryset with the given
  primary key, or a 404; the object permissions are checked before the row is returned.
\<close>

definition get_object ::
  "'o orm \<Rightarrow> 'o permission_env \<Rightarrow> permission_class list \<Rightarrow> 'o list \<Rightarrow> request \<Rightarrow> string
     \<Rightarrow> error + 'o" where
  "get_object db env perms rows r pk =
     (case find (\<lambda>obj. pk_of db obj = pk) (filter_queryset db r rows) of
        None \<Rightarrow> Inl Http404
      | Some obj \<Rightarrow>
          (case check_object_permissions env perms r obj of
             Inl e \<Rightarrow> Inl e
           | Inr _ \<Rightarrow> Inr obj))"

text \<open>
  The checks of the framework that a request passes before a standard action does its
  work. \<^verbatim>\<open>dispatch\<close> calls \<^verbatim>\<open>initial\<close>, which checks the request-level
  permissions, for every request. The actions on one object (retrieve, update,
  partial_update, destroy) then fetch it with \<^verbatim>\<open>get_object\<close>, which checks the
  object-level permissions; the actions on the collection (list, create) fetch no object.
  The result is the object the action goes on with, if the request names one.
\<close>

definition dispatch_checks ::
  "'o orm \<Rightarrow> 'o permission_env \<Rightarrow> permission_class list \<Rightarrow> 'o list \<Rightarrow> request
     \<Rightarrow> error + 'o option" where
  "dispatch_checks db env perms rows r =
     (case check_permissions env perms r of
        Inl e \<Rightarrow> Inl e
      | Inr _ \<Rightarrow>
          (case kwargs_pk r of
             None \<Rightarrow> Inr None
           | Some pk \<Rightarrow>
               (case get_object db env perms rows r pk of
                  Inl e \<Rightarrow> Inl e
                | Inr obj \<Rightarrow> Inr (Some obj))))"

section \<open>The data model\<close>

record enterprise_customer =
  uuid :: string
  name :: string
  catalog :: "int option"
  active :: bool
  site :: string
  enable_data_sharing_consent :: bool
  enforce_data_sharing_consent :: string

definition py_of_catalog :: "int option \<Rightarrow> py" where
  "py_of_catalog c = (case c of None \<Rightarrow> PNone | Some n \<Rightarrow> PInt n)"

text \<open>
  Modelled from the spec: the manager \<^verbatim>\<open>EnterpriseCustomer.active_customers\<close> of
  \<^verbatim>\<open>enterprise/models.py\<close>, which is not among the sources. The specification
  gives a customer an active flag; the queryset of the manager holds the customers whose
  flag is set.
\<close>

definition active_customers_all :: "enterprise_customer list \<Rightarrow> enterprise_customer list" where
  "active_customers_all table = filter active table"

record enterprise_customer_user =
  learner_pk :: string
  learner_customer :: enterprise_customer
  user_id :: int
  available_entitlements :: "py list"

text \<open>
  Modelled from the spec: the property \<^verbatim>\<open>EnterpriseCustomerUser.entitlements\<close> of
  \<^verbatim>\<open>enterprise/models.py\<close>, which is not among the sources. The specification says
  it is the learner's entitlements list, filtered according to the customer's
  consent-enforcement setting; how the setting selects is the parameter \<open>allows\<close>.
\<close>

definition entitlements ::
  "(string \<Rightarrow> enterprise_customer_user \<Rightarrow> py \<Rightarrow> bool) \<Rightarrow> enterprise_customer_user \<Rightarrow> py list" where
  "entitlements allows learner =
     filter (allows (enforce_data_sharing_consent (learner_customer learner)) learner)
       (available_entitlements learner)"

text \<open>
  Modelled from the spec: \<^verbatim>\<open>EnterpriseCustomerUserEntitlementSerializer\<close> of
  \<^verbatim>\<open>enterprise/api/v1/serializers.py\<close>, which is not among the sources. The
  specification gives the payload a single key holding the entitlements list: the
  serializer declares the one field \<^verbatim>\<open>entitlements\<close> and reads it from the instance.
\<close>

definition EnterpriseCustomerUserEntitlementSerializer_fields :: "string list" where
  "EnterpriseCustomerUserEntitlementSerializer_fields = [''entitlements'']"

definition EnterpriseCustomerUserEntitlementSerializer_data :: "(string \<times> py) list \<Rightarrow> py" where
  "EnterpriseCustomerUserEntitlementSerializer_data instance =
     PDict (map (\<lambda>f. (f, case map_of instance f of None \<Rightarrow> PNone | Some v \<Rightarrow> v))
              EnterpriseCustomerUserEntitlementSerializer_fields)"

text \<open>
  A course enrollment, with the fields that \<^verbatim>\<open>EnterpriseCourseEnrollmentViewSet\<close>
  filters and orders on (\<^verbatim>\<open>enterprise_customer_user\<close> as
  \<open>enrollment_customer_user\<close>), and its primary key.
\<close>

record enterprise_course_enrollment =
  enrollment_pk :: string
  enrollment_customer_user :: int
  consent_granted :: bool
  course_id :: string

section \<open>The collaborators of the catalog views\<close>

text \<open>
  The catalog client (\<^verbatim>\<open>CourseCatalogApiClient(request.user)\<close> and its three calls),
  the serializers, the pagination helper and the decorator
  \<^verbatim>\<open>enterprise_customer_required\<close> are imported by the module; the views are verified
  for every behaviour of them. A serializer of catalog courses is built from the payload,
  changed in place by \<^verbatim>\<open>update_enterprise_courses\<close> and read through \<^verbatim>\<open>data\<close>;
  \<open>'s\<close> is its state.
\<close>

record 's catalog_env =
  get_paginated_catalogs :: "user \<Rightarrow> query \<Rightarrow> py"
  get_catalog :: "user \<Rightarrow> string option \<Rightarrow> py"
  get_paginated_catalog_courses :: "user \<Rightarrow> py \<Rightarrow> query \<Rightarrow> py"
  EnterpriseCatalogCoursesReadOnlySerializer :: "py \<Rightarrow> 's"
  update_enterprise_courses :: "enterprise_customer \<Rightarrow> py \<Rightarrow> 's \<Rightarrow> 's"
  courses_serializer_data :: "'s \<Rightarrow> py"
  CourseCatalogAPIResponseReadOnlySerializer_data :: "py \<Rightarrow> py"
  EnterpriseCourseCatalogReadOnlySerializer_data :: "py \<Rightarrow> py"
  get_paginated_response :: "py \<Rightarrow> request \<Rightarrow> response"
  enterprise_customer_required :: "request \<Rightarrow> error + enterprise_customer"

text \<open>\<^verbatim>\<open>str(pk)\<close>, as the logger's \<^verbatim>\<open>%s\<close> formats the primary key of the URL.\<close>

definition str_pk :: "string option \<Rightarrow> string" where
  "str_pk pk = (case pk of None \<Rightarrow> ''None'' | Some k \<Rightarrow> k)"

definition py_of_pk :: "string option \<Rightarrow> py" where
  "py_of_pk pk = (case pk of None \<Rightarrow> PNone | Some k \<Rightarrow> PStr k)"

section \<open>The log and error messages\<close>

definition no_catalog_message :: "string \<Rightarrow> string \<Rightarrow> string" where
  "no_catalog_message enterprise_name path =
     ''No catalog is associated with Enterprise '' @ enterprise_name @ '' from endpoint ''
       @ [CHR 0x27] @ path @ [CHR 0x27] @ ''.''"

definition no_courses_message :: "string \<Rightarrow> string \<Rightarrow> string" where
  "no_courses_message enterprise_name path =
     ''Unable to fetch API response for catalog courses for Enterprise '' @ enterprise_name
       @ '' from endpoint '' @ [CHR 0x27] @ path @ [CHR 0x27] @ ''.''"

definition catalogs_log_message :: string where
  "catalogs_log_message =
     ''Unable to fetch API response from endpoint '' @ [CHR 0x22] @ ''/catalogs/''
       @ [CHR 0x22] @ ''.''"

definition catalog_log_message :: "string option \<Rightarrow> string" where
  "catalog_log_message pk =
     ''Unable to fetch API response for given catalog from endpoint '' @ [CHR 0x27]
       @ ''/catalog/'' @ str_pk pk @ ''/'' @ [CHR 0x27] @ ''.''"

definition catalog_courses_log_message :: "string \<Rightarrow> string" where
  "catalog_courses_log_message path =
     ''Unable to fetch API response for catalog courses from endpoint '' @ [CHR 0x27]
       @ path @ [CHR 0x27] @ ''.''"

definition resource_missing_message :: string where
  "resource_missing_message = ''The resource you are looking for does not exist.''"

section \<open>EnterpriseCustomerViewSet\<close>

definition EnterpriseCustomerViewSet_queryset :: "enterprise_customer list \<Rightarrow> enterprise_customer list" where
  "EnterpriseCustomerViewSet_queryset table = active_customers_all table"

text \<open>
  The action \<^verbatim>\<open>courses\<close>. It returns the response or the exception raised, and the
  trace extended by what it logged and called.
\<close>

definition EnterpriseCustomerViewSet_courses ::
  "api_settings \<Rightarrow> enterprise_customer orm \<Rightarrow> enterprise_customer permission_env
     \<Rightarrow> 's catalog_env \<Rightarrow> enterprise_customer list \<Rightarrow> request \<Rightarrow> string \<Rightarrow> trace
     \<Rightarrow> (error + response) \<times> trace" where
  "EnterpriseCustomerViewSet_courses s db penv cenv table request pk tr =
     (let perms = get_permissions s EnterpriseCustomerViewSet ''courses'' in
      case get_object db penv perms (EnterpriseCustomerViewSet_queryset table) request pk of
        Inl e \<Rightarrow> (Inl e, tr)
      | Inr enterprise_customer \<Rightarrow>
          (case check_object_permissions penv perms request enterprise_customer of
             Inl e \<Rightarrow> (Inl e, tr)
           | Inr _ \<Rightarrow>
               if \<not> truthy (py_of_catalog (catalog enterprise_customer)) then
                 (let error_message =
                        no_catalog_message (name enterprise_customer) (get_full_path request)
                  in (Inl (NotFound error_message), tr @ [LogError error_message]))
               else
                 (let catalog_id = py_of_catalog (catalog enterprise_customer);
                      courses = get_paginated_catalog_courses cenv (req_user request)
                                  catalog_id (GET request);
                      tr1 = tr @ [GetPaginatedCatalogCourses (req_user request)
                                    catalog_id (GET request)]
                  in if \<not> truthy courses then
                       (let error_message =
                              no_courses_message (name enterprise_customer) (get_full_path request)
                        in (Inl (NotFound error_message), tr1 @ [LogError error_message]))
                     else
                       (let serializer = EnterpriseCatalogCoursesReadOnlySerializer cenv courses;
                            serializer1 = update_enterprise_courses cenv enterprise_customer
                                            catalog_id serializer
                        in (Inr (get_paginated_response cenv
                                   (courses_serializer_data cenv serializer1) request), tr1)))))"

section \<open>Serializer selection by method\<close>

definition EnterpriseCourseEnrollmentViewSet_get_serializer_class :: "request \<Rightarrow> serializer_class" where
  "EnterpriseCourseEnrollmentViewSet_get_serializer_class request =
     (if req_method request \<in> set [''GET''] then EnterpriseCourseEnrollmentReadOnlySerializer
      else EnterpriseCourseEnrollmentWriteSerializer)"

definition EnterpriseCustomerUserViewSet_get_serializer_class :: "request \<Rightarrow> serializer_class" where
  "EnterpriseCustomerUserViewSet_get_serializer_class request =
     (if req_method request \<in> set [''GET''] then EnterpriseCustomerUserReadOnlySerializer
      else EnterpriseCustomerUserWriteSerializer)"

section \<open>EnterpriseCustomerUserViewSet.entitlements\<close>

definition EnterpriseCustomerUserViewSet_entitlements ::
  "api_settings \<Rightarrow> enterprise_customer_user orm \<Rightarrow> enterprise_customer_user permission_env
     \<Rightarrow> (string \<Rightarrow> enterprise_customer_user \<Rightarrow> py \<Rightarrow> bool) \<Rightarrow> enterprise_customer_user list
     \<Rightarrow> request \<Rightarrow> string \<Rightarrow> error + response" where
  "EnterpriseCustomerUserViewSet_entitlements s db penv allows table request pk =
     (case get_object db penv (get_permissions s EnterpriseCustomerUserViewSet ''entitlements'')
             table request pk of
        Inl e \<Rightarrow> Inl e
      | Inr enterprise_customer_user \<Rightarrow>
          (let instance = [(''entitlements'', PList (entitlements allows enterprise_customer_user))]
           in Inr (Response (EnterpriseCustomerUserEntitlementSerializer_data instance))))"

section \<open>EnterpriseCatalogViewSet\<close>

definition EnterpriseCatalogViewSet_list ::
  "'s catalog_env \<Rightarrow> request \<Rightarrow> trace \<Rightarrow> (error + response) \<times> trace" where
  "EnterpriseCatalogViewSet_list cenv request tr =
     (let catalogs = get_paginated_catalogs cenv (req_user request) (GET request);
          tr1 = tr @ [GetPaginatedCatalogs (req_user request) (GET request)]
      in if \<not> truthy catalogs then
           (Inl (NotFound resource_missing_message), tr1 @ [LogError catalogs_log_message])
         else
           (Inr (get_paginated_response cenv
                   (CourseCatalogAPIResponseReadOnlySerializer_data cenv catalogs) request), tr1))"

definition EnterpriseCatalogViewSet_retrieve ::
  "'s catalog_env \<Rightarrow> request \<Rightarrow> string option \<Rightarrow> trace \<Rightarrow> (error + response) \<times> trace" where
  "EnterpriseCatalogViewSet_retrieve cenv request pk tr =
     (let catalog = get_catalog cenv (req_user request) pk;
          tr1 = tr @ [GetCatalog (req_user request) pk]
      in if \<not> truthy catalog then
           (Inl (NotFound resource_missing_message), tr1 @ [LogError (catalog_log_message pk)])
         else
           (Inr (Response (EnterpriseCourseCatalogReadOnlySerializer_data cenv catalog)), tr1))"

definition EnterpriseCatalogViewSet_courses ::
  "'s catalog_env \<Rightarrow> request \<Rightarrow> string option \<Rightarrow> trace \<Rightarrow> (error + response) \<times> trace" where
  "EnterpriseCatalogViewSet_courses cenv request pk tr =
     (case enterprise_customer_required cenv request of
        Inl e \<Rightarrow> (Inl e, tr)
      | Inr enterprise_customer \<Rightarrow>
          (let courses = get_paginated_catalog_courses cenv (req_user request)
                           (py_of_pk pk) (GET request);
               tr1 = tr @ [GetPaginatedCatalogCourses (req_user request) (py_of_pk pk)
                             (GET request)]
           in if \<not> truthy courses then
                (Inl (NotFound resource_missing_message),
                 tr1 @ [LogError (catalog_courses_log_message (get_full_path request))])
              else
                (let serializer = EnterpriseCatalogCoursesReadOnlySerializer cenv courses;
                     serializer1 = update_enterprise_courses cenv enterprise_customer
                                     (py_of_pk pk) serializer
                 in (Inr (get_paginated_response cenv
                            (courses_serializer_data cenv serializer1) request), tr1))))"

section \<open>Example inputs\<close>

definition example_settings :: api_settings where
  "example_settings = \<lparr> DEFAULT_FILTER_BACKENDS = [],
     DEFAULT_PERMISSION_CLASSES = [AllowAny],
     DEFAULT_AUTHENTICATION_CLASSES = [SessionAuthentication, BasicAuthentication],
     DEFAULT_THROTTLE_CLASSES = [] \<rparr>"

definition example_user :: user where
  "example_user = \<lparr> username = ''staff'', is_authenticated = True \<rparr>"

definition example_request :: request where
  "example_request = \<lparr> req_method = ''GET'', get_full_path = ''/api/v1/x/?page=2'',
     GET = [(''page'', ''2'')], req_user = example_user, kwargs_pk = None \<rparr>"

definition example_catalogs_request :: request where
  "example_catalogs_request = \<lparr> req_method = ''GET'',
     get_full_path = ''/enterprise/api/v1/catalogs/?page=2'',
     GET = [(''page'', ''2'')], req_user = example_user, kwargs_pk = None \<rparr>"

definition example_post :: request where
  "example_post = \<lparr> req_method = ''POST'', get_full_path = ''/api/v1/x/'',
     GET = [], req_user = example_user, kwargs_pk = None \<rparr>"

definition acme :: enterprise_customer where
  "acme = \<lparr> uuid = ''a1'', name = ''Acme'', catalog = Some 7, active = True,
     site = ''example.com'', enable_data_sharing_consent = True,
     enforce_data_sharing_consent = ''at_login'' \<rparr>"

definition globex :: enterprise_customer where
  "globex = \<lparr> uuid = ''g2'', name = ''Globex'', catalog = None, active = True,
     site = ''example.com'', enable_data_sharing_consent = False,
     enforce_data_sharing_consent = ''optional'' \<rparr>"

definition initech :: enterprise_customer where
  "initech = \<lparr> uuid = ''i3'', name = ''Initech'', catalog = Some 9, active = False,
     site = ''example.com'', enable_data_sharing_consent = False,
     enforce_data_sharing_consent = ''optional'' \<rparr>"

definition hooli :: enterprise_customer where
  "hooli = \<lparr> uuid = ''h4'', name = ''Hooli'', catalog = Some 8, active = True,
     site = ''example.com'', enable_data_sharing_consent = True,
     enforce_data_sharing_consent = ''at_enrollment'' \<rparr>"

definition example_table :: "enterprise_customer list" where
  "example_table = [acme, globex, initech, hooli]"

definition example_learner :: enterprise_customer_user where
  "example_learner = \<lparr> learner_pk = ''1'', learner_customer = acme, user_id = 42,
     available_entitlements = [PInt 1, PInt 2, PInt 3] \<rparr>"

definition example_learner_orm :: "enterprise_customer_user orm" where
  "example_learner_orm = \<lparr> pk_of = learner_pk, matches = (\<lambda>r u. True) \<rparr>"

text \<open>A consent rule that withholds entitlement 2 from customers that enforce consent at login.\<close>

definition example_allows :: "string \<Rightarrow> enterprise_customer_user \<Rightarrow> py \<Rightarrow> bool" where
  "example_allows setting learner e = (setting \<noteq> ''at_login'' \<or> e \<noteq> PInt 2)"

definition example_orm :: "enterprise_customer orm" where
  "example_orm = \<lparr> pk_of = uuid, matches = (\<lambda>r c. True) \<rparr>"

definition example_penv :: "'o permission_env" where
  "example_penv = \<lparr> is_service_user = (\<lambda>u. username u = ''service''),
     is_owner = (\<lambda>u obj. False),
     staff_or_linked_request = (\<lambda>r. True),
     staff_or_linked_object = (\<lambda>r obj. True) \<rparr>"

text \<open>
  Two enrollments; the user \<^verbatim>\<open>staff\<close> owns the first and is no service user.
\<close>

definition enrollment5 :: enterprise_course_enrollment where
  "enrollment5 = \<lparr> enrollment_pk = ''5'', enrollment_customer_user = 42,
     consent_granted = True, course_id = ''course-v1:edX+DemoX+2017'' \<rparr>"

definition enrollment6 :: enterprise_course_enrollment where
  "enrollment6 = \<lparr> enrollment_pk = ''6'', enrollment_customer_user = 43,
     consent_granted = False, course_id = ''course-v1:edX+DemoX+2017'' \<rparr>"

definition example_enrollment_orm :: "enterprise_course_enrollment orm" where
  "example_enrollment_orm = \<lparr> pk_of = enrollment_pk, matches = (\<lambda>r e. True) \<rparr>"

definition example_enrollment_penv :: "enterprise_course_enrollment permission_env" where
  "example_enrollment_penv = \<lparr> is_service_user = (\<lambda>u. username u = ''service''),
     is_owner = (\<lambda>u e. username u = ''staff'' \<and> enrollment_customer_user e = 42),
     staff_or_linked_request = (\<lambda>r. True),
     staff_or_linked_object = (\<lambda>r e. True) \<rparr>"

definition example_create :: request where
  "example_create = \<lparr> req_method = ''POST'',
     get_full_path = ''/enterprise/api/v1/enterprise-course-enrollment/'',
     GET = [], req_user = example_user, kwargs_pk = None \<rparr>"

definition example_update5 :: request where
  "example_update5 = \<lparr> req_method = ''PUT'',
     get_full_path = ''/enterprise/api/v1/enterprise-course-enrollment/5/'',
     GET = [], req_user = example_user, kwargs_pk = Some ''5'' \<rparr>"

definition example_update6 :: request where
  "example_update6 = \<lparr> req_method = ''PUT'',
     get_full_path = ''/enterprise/api/v1/enterprise-course-enrollment/6/'',
     GET = [], req_user = example_user, kwargs_pk = Some ''6'' \<rparr>"

definition example_retrieve6 :: request where
  "example_retrieve6 = \<lparr> req_method = ''GET'',
     get_full_path = ''/enterprise/api/v1/enterprise-course-enrollment/6/'',
     GET = [], req_user = example_user, kwargs_pk = Some ''6'' \<rparr>"

text \<open>A catalog service that knows catalog 7 and nothing else.\<close>

definition example_cenv :: "py catalog_env" where
  "example_cenv = \<lparr>
     get_paginated_catalogs = (\<lambda>u q. PNone),
     get_catalog = (\<lambda>u pk. PNone),
     get_paginated_catalog_courses =
       (\<lambda>u c q. if c = PInt 7 then PDict [(''count'', PInt 0), (''results'', PList [])]
                 else PDict []),
     EnterpriseCatalogCoursesReadOnlySerializer = (\<lambda>courses. courses),
     update_enterprise_courses = (\<lambda>ec c ser. PDict [(''enterprise'', PStr (name ec)), (''courses'', ser)]),
     courses_serializer_data = (\<lambda>ser. ser),
     CourseCatalogAPIResponseReadOnlySerializer_data = (\<lambda>p. p),
     EnterpriseCourseCatalogReadOnlySerializer_data = (\<lambda>p. p),
     get_paginated_response = (\<lambda>d r. Response d),
     enterprise_customer_required = (\<lambda>r. Inr acme) \<rparr>"

section \<open>Auxiliary facts\<close>

lemma contains_iff: "contains s sub \<longleftrightarrow> (\<exists>p q. s = p @ sub @ q)"
proof (induction s)
  case Nil
  then show ?case by auto
next
  case (Cons c cs)
  show ?case
  proof
    assume "contains (c # cs) sub"
    then consider "prefix sub (c # cs)" | "contains cs sub" by auto
    then show "\<exists>p q. c # cs = p @ sub @ q"
    proof cases
      case 1
      then obtain q where "c # cs = sub @ q" by (auto simp: prefix_def)
      then have "c # cs = [] @ sub @ q" by simp
      then show ?thesis by blast
    next
      case 2
      with Cons.IH obtain p q where "cs = p @ sub @ q" by blast
      then have "c # cs = (c # p) @ sub @ q" by simp
      then show ?thesis by blast
    qed
  next
    assume "\<exists>p q. c # cs = p @ sub @ q"
    then obtain p q where pq: "c # cs = p @ sub @ q" by blast
    show "contains (c # cs) sub"
    proof (cases p)
      case Nil
      with pq have "prefix sub (c # cs)" by (simp add: prefix_def)
      then show ?thesis by simp
    next
      case (Cons a p')
      with pq have "cs = p' @ sub @ q" by simp
      with Cons.IH have "contains cs sub" by blast
      then show ?thesis by simp
    qed
  qed
qed

lemma contains_middle: "contains (p @ sub @ q) sub"
  by (auto simp: contains_iff)

lemma find_Some_member: "find P xs = Some x \<Longrightarrow> x \<in> set xs \<and> P x"
  by (induction xs) (auto split: if_splits)

lemma get_object_Inr:
  assumes "get_object db env perms rows r pk = Inr obj"
  shows "obj \<in> set rows \<and> matches db r obj \<and> pk_of db obj = pk
         \<and> check_object_permissions env perms r obj = Inr ()"
proof -
  from assms obtain x where
    f: "find (\<lambda>obj. pk_of db obj = pk) (filter_queryset db r rows) = Some x"
    by (auto simp: get_object_def split: option.splits)
  with assms have c: "check_object_permissions env perms r x = Inr ()" and "x = obj"
    by (auto simp: get_object_def split: sum.splits)
  moreover from f have "x \<in> set (filter_queryset db r rows) \<and> pk_of db x = pk"
    by (rule find_Some_member)
  ultimately show ?thesis by (simp add: filter_queryset_def)
qed

lemma no_catalog_message_contains:
  "contains (no_catalog_message n p) n" "contains (no_catalog_message n p) p"
proof -
  show "contains (no_catalog_message n p) n"
    unfolding no_catalog_message_def by (rule contains_middle)
  have "no_catalog_message n p =
        (''No catalog is associated with Enterprise '' @ n @ '' from endpoint '' @ [CHR 0x27])
          @ p @ ([CHR 0x27] @ ''.'')"
    by (simp add: no_catalog_message_def)
  then show "contains (no_catalog_message n p) p"
    by (simp only: contains_middle)
qed

lemma example_courses_permissions:
  "get_permissions example_settings EnterpriseCustomerViewSet ''courses'' =
     [IsAuthenticated, IsServiceUserOrReadOnly, IsStaffUserOrLinkedToEnterprise]"
  by (simp add: get_permissions_def view_attr_def no_attrs_def)

lemma example_get_object_globex:
  "get_object example_orm example_penv
     (get_permissions example_settings EnterpriseCustomerViewSet ''courses'')
     (EnterpriseCustomerViewSet_queryset example_table) example_request ''g2'' = Inr globex"
  by (simp add: example_courses_permissions get_object_def filter_queryset_def
        EnterpriseCustomerViewSet_queryset_def active_customers_all_def example_table_def
        example_orm_def acme_def globex_def initech_def hooli_def check_object_permissions_def
        IsServiceUserOrReadOnly_has_object_permission_def
        example_penv_def example_request_def SAFE_METHODS_def)

lemma get_object_checked:
  "get_object db env perms rows r pk = Inr obj \<Longrightarrow>
     check_object_permissions env perms r obj = Inr ()"
  by (drule get_object_Inr) simp

lemma example_get_object_acme:
  "get_object example_orm example_penv
     (get_permissions example_settings EnterpriseCustomerViewSet ''courses'')
     (EnterpriseCustomerViewSet_queryset example_table) example_request ''a1'' = Inr acme"
  by (simp add: example_courses_permissions get_object_def filter_queryset_def
        EnterpriseCustomerViewSet_queryset_def active_customers_all_def example_table_def
        example_orm_def acme_def globex_def initech_def hooli_def check_object_permissions_def
        IsServiceUserOrReadOnly_has_object_permission_def
        example_penv_def example_request_def SAFE_METHODS_def)

lemma mro_values:
  "mro EnterpriseModelViewSet = [EnterpriseModelViewSet]"
  "mro EnterpriseReadOnlyModelViewSet =
     [EnterpriseReadOnlyModelViewSet, EnterpriseModelViewSet, viewsets_ReadOnlyModelViewSet]"
  "mro EnterpriseReadWriteModelViewSet =
     [EnterpriseReadWriteModelViewSet, EnterpriseModelViewSet, viewsets_ModelViewSet]"
  "mro EnterpriseCustomerViewSet = EnterpriseCustomerViewSet # mro EnterpriseReadOnlyModelViewSet"
  "mro EnterpriseCourseEnrollmentViewSet =
     EnterpriseCourseEnrollmentViewSet # mro EnterpriseReadWriteModelViewSet"
  "mro SiteViewSet = SiteViewSet # mro EnterpriseReadOnlyModelViewSet"
  "mro UserViewSet = UserViewSet # mro EnterpriseReadOnlyModelViewSet"
  "mro EnterpriseCustomerUserViewSet =
     EnterpriseCustomerUserViewSet # mro EnterpriseReadWriteModelViewSet"
  "mro EnterpriseCustomerBrandingConfigurationViewSet =
     EnterpriseCustomerBrandingConfigurationViewSet # mro EnterpriseReadOnlyModelViewSet"
  "mro UserDataSharingConsentAuditViewSet =
     UserDataSharingConsentAuditViewSet # mro EnterpriseReadOnlyModelViewSet"
  "mro EnterpriseCustomerEntitlementViewSet =
     EnterpriseCustomerEntitlementViewSet # mro EnterpriseReadOnlyModelViewSet"
  "mro EnterpriseCatalogViewSet = [EnterpriseCatalogViewSet, viewsets_ViewSet]"
  by (simp_all add: mro_def numeral_3_eq_3)

lemma mro_complete: "linearize (3 + k) c = mro c"
  by (cases c) (simp_all add: mro_def numeral_3_eq_3)


lemma module_class_cases:
  assumes "c \<in> set module_classes"
  obtains "c = EnterpriseModelViewSet" | "c = EnterpriseReadOnlyModelViewSet"
    | "c = EnterpriseReadWriteModelViewSet" | "c = EnterpriseCustomerViewSet"
    | "c = EnterpriseCourseEnrollmentViewSet" | "c = SiteViewSet" | "c = UserViewSet"
    | "c = EnterpriseCustomerUserViewSet" | "c = EnterpriseCustomerBrandingConfigurationViewSet"
    | "c = UserDataSharingConsentAuditViewSet" | "c = EnterpriseCustomerEntitlementViewSet"
    | "c = EnterpriseCatalogViewSet"
  using assms unfolding module_classes_def by auto

lemma class_authentication:
  "c \<in> set module_classes \<Longrightarrow>
     getattr s c authentication_classes =
       Some [JwtAuthentication, BearerAuthentication, SessionAuthentication]"
  by (erule module_class_cases)
     (simp_all add: getattr_def mro_values no_attrs_def with_fields_def)

lemma class_throttle:
  "c \<in> set module_classes \<Longrightarrow> getattr s c throttle_classes = Some [ServiceUserThrottle]"
  by (erule module_class_cases)
     (simp_all add: getattr_def mro_values no_attrs_def with_fields_def)

lemma class_permissions:
  "c \<in> set module_classes \<Longrightarrow>
     getattr s c permission_classes =
       Some (if viewsets_ModelViewSet \<in> set (mro c)
             then [IsAuthenticated, IsServiceUserOrReadOnly] else [IsAuthenticated])"
  by (erule module_class_cases)
     (simp_all add: getattr_def mro_values no_attrs_def with_fields_def)


lemma example_get_object_hooli:
  "get_object example_orm example_penv
     (get_permissions example_settings EnterpriseCustomerViewSet ''courses'')
     (EnterpriseCustomerViewSet_queryset example_table) example_request ''h4'' = Inr hooli"
  by (simp add: example_courses_permissions get_object_def filter_queryset_def
        EnterpriseCustomerViewSet_queryset_def active_customers_all_def example_table_def
        example_orm_def acme_def globex_def initech_def hooli_def check_object_permissions_def
        IsServiceUserOrReadOnly_has_object_permission_def
        example_penv_def example_request_def SAFE_METHODS_def)

lemma example_payloads:
  "get_paginated_catalogs example_cenv u q = PNone"
  "get_catalog example_cenv u ck = PNone"
  "get_paginated_catalog_courses example_cenv u (PInt 7) q
     = PDict [(''count'', PInt 0), (''results'', PList [])]"
  "get_paginated_catalog_courses example_cenv u (PInt 8) q = PDict []"
  "get_paginated_catalog_courses example_cenv u (PStr k) q = PDict []"
  "enterprise_customer_required example_cenv r = Inr acme"
  by (simp_all add: example_cenv_def)

lemma no_courses_message_contains:
  "contains (no_courses_message n p) n" "contains (no_courses_message n p) p"
proof -
  show "contains (no_courses_message n p) n"
    unfolding no_courses_message_def by (rule contains_middle)
  have "no_courses_message n p =
        (''Unable to fetch API response for catalog courses for Enterprise '' @ n
           @ '' from endpoint '' @ [CHR 0x27]) @ p @ ([CHR 0x27] @ ''.'')"
    by (simp add: no_courses_message_def)
  then show "contains (no_courses_message n p) p"
    by (simp only: contains_middle)
qed

lemma catalog_courses_log_message_contains:
  "contains (catalog_courses_log_message p) p"
proof -
  have "catalog_courses_log_message p =
        (''Unable to fetch API response for catalog courses from endpoint '' @ [CHR 0x27])
          @ p @ ([CHR 0x27] @ ''.'')"
    by (simp add: catalog_courses_log_message_def)
  then show ?thesis
    by (simp only: contains_middle)
qed

lemma catalog_log_message_contains:
  "contains (catalog_log_message pk) (''/catalog/'' @ str_pk pk @ ''/'')"
proof -
  have "catalog_log_message pk =
        (''Unable to fetch API response for given catalog from endpoint '' @ [CHR 0x27])
          @ (''/catalog/'' @ str_pk pk @ ''/'') @ ([CHR 0x27] @ ''.'')"
    by (simp add: catalog_log_message_def)
  then show ?thesis
    by (simp only: contains_middle)
qed

lemma example_get_object_learner:
  "get_object example_learner_orm example_penv
     (get_permissions example_settings EnterpriseCustomerUserViewSet ''entitlements'')
     [example_learner] example_request ''1'' = Inr example_learner"
  by (simp add: get_permissions_def view_attr_def no_attrs_def getattr_def mro_values
        with_fields_def get_object_def filter_queryset_def example_learner_orm_def
        example_learner_def check_object_permissions_def example_request_def SAFE_METHODS_def
        IsServiceUserOrReadOnly_has_object_permission_def)

section \<open>The courses of an enterprise customer\<close>

text \<open>
  C1. When the customer that \<^verbatim>\<open>get_object\<close> resolves has a falsy catalog field, the
  courses action raises \<^verbatim>\<open>NotFound\<close>; what it adds to the trace is exactly one
  error-level log line, so no call to the catalog client precedes the failure; and the
  logged message contains the customer's name and the full path of the request.
\<close>

theorem courses_without_catalog:
  assumes resolved:
    "get_object db penv (get_permissions s EnterpriseCustomerViewSet ''courses'')
       (EnterpriseCustomerViewSet_queryset table) request pk = Inr ec"
  and falsy: "\<not> truthy (py_of_catalog (catalog ec))"
  shows "EnterpriseCustomerViewSet_courses s db penv cenv table request pk tr =
           (Inl (NotFound (no_catalog_message (name ec) (get_full_path request))),
            tr @ [LogError (no_catalog_message (name ec) (get_full_path request))])
         \<and> contains (no_catalog_message (name ec) (get_full_path request)) (name ec)
         \<and> contains (no_catalog_message (name ec) (get_full_path request)) (get_full_path request)"
proof -
  have "check_object_permissions penv (get_permissions s EnterpriseCustomerViewSet ''courses'')
          request ec = Inr ()"
    using get_object_Inr [OF resolved] by simp
  with resolved falsy show ?thesis
    by (simp add: EnterpriseCustomerViewSet_courses_def Let_def no_catalog_message_contains)
qed

theorem courses_without_catalog_witness:
  "get_object example_orm example_penv
     (get_permissions example_settings EnterpriseCustomerViewSet ''courses'')
     (EnterpriseCustomerViewSet_queryset example_table) example_request ''g2'' = Inr globex
   \<and> \<not> truthy (py_of_catalog (catalog globex))
   \<and> EnterpriseCustomerViewSet_courses example_settings example_orm example_penv example_cenv
       example_table example_request ''g2'' [] =
       (Inl (NotFound (no_catalog_message ''Globex'' ''/api/v1/x/?page=2'')),
        [LogError (no_catalog_message ''Globex'' ''/api/v1/x/?page=2'')])
   \<and> contains (no_catalog_message ''Globex'' ''/api/v1/x/?page=2'') ''Globex''
   \<and> contains (no_catalog_message ''Globex'' ''/api/v1/x/?page=2'') ''/api/v1/x/?page=2''"
proof -
  have falsy: "\<not> truthy (py_of_catalog (catalog globex))"
    by (simp add: globex_def py_of_catalog_def)
  show ?thesis
    using courses_without_catalog [OF example_get_object_globex falsy,
            of example_cenv "[]"] example_get_object_globex falsy
    by (simp add: globex_def example_request_def)
qed

text \<open>
  C3. When the resolved customer has a catalog, the trace continues with the call
  \<^verbatim>\<open>get_paginated_catalog_courses\<close> on that catalog id and the query parameters of the
  request, unchanged; and a truthy payload is given to the serializer, updated by
  \<^verbatim>\<open>update_enterprise_courses\<close> with the customer and its catalog, and its data
  returned through \<^verbatim>\<open>get_paginated_response\<close>, with no further call or log line.
\<close>

theorem courses_with_catalog:
  assumes resolved:
    "get_object db penv (get_permissions s EnterpriseCustomerViewSet ''courses'')
       (EnterpriseCustomerViewSet_queryset table) request pk = Inr ec"
  and cat: "truthy (py_of_catalog (catalog ec))"
  shows "prefix (tr @ [GetPaginatedCatalogCourses (req_user request)
                         (py_of_catalog (catalog ec)) (GET request)])
           (snd (EnterpriseCustomerViewSet_courses s db penv cenv table request pk tr))
         \<and> (truthy (get_paginated_catalog_courses cenv (req_user request)
                      (py_of_catalog (catalog ec)) (GET request)) \<longrightarrow>
            EnterpriseCustomerViewSet_courses s db penv cenv table request pk tr =
              (Inr (get_paginated_response cenv
                      (courses_serializer_data cenv
                         (update_enterprise_courses cenv ec (py_of_catalog (catalog ec))
                            (EnterpriseCatalogCoursesReadOnlySerializer cenv
                               (get_paginated_catalog_courses cenv (req_user request)
                                  (py_of_catalog (catalog ec)) (GET request)))))
                      request),
               tr @ [GetPaginatedCatalogCourses (req_user request)
                       (py_of_catalog (catalog ec)) (GET request)]))"
proof -
  from resolved have "check_object_permissions penv
       (get_permissions s EnterpriseCustomerViewSet ''courses'') request ec = Inr ()"
    by (rule get_object_checked)
  with resolved cat show ?thesis
    by (simp add: EnterpriseCustomerViewSet_courses_def Let_def)
qed

theorem courses_with_catalog_witness:
  "get_object example_orm example_penv
     (get_permissions example_settings EnterpriseCustomerViewSet ''courses'')
     (EnterpriseCustomerViewSet_queryset example_table) example_request ''a1'' = Inr acme
   \<and> truthy (py_of_catalog (catalog acme))
   \<and> EnterpriseCustomerViewSet_courses example_settings example_orm example_penv example_cenv
        example_table example_request ''a1'' [] =
      (Inr (Response (PDict [(''enterprise'', PStr ''Acme''),
              (''courses'', PDict [(''count'', PInt 0), (''results'', PList [])])])),
       [GetPaginatedCatalogCourses example_user (PInt 7) [(''page'', ''2'')]])"
proof -
  have cat: "truthy (py_of_catalog (catalog acme))"
    by (simp add: acme_def py_of_catalog_def)
  have c7: "py_of_catalog (catalog acme) = PInt 7"
    by (simp add: acme_def py_of_catalog_def)
  show ?thesis
    using courses_with_catalog [OF example_get_object_acme cat, where cenv = example_cenv
        and tr = "[]"]
      example_get_object_acme cat
    by (simp add: c7 example_payloads)
       (simp add: example_cenv_def example_request_def acme_def)
qed

section \<open>Empty payloads of the catalog service\<close>

text \<open>
  C2. In each of the four operations that call the catalog client (the list, retrieve and
  courses operations of the catalog view set and the courses action of a customer),
  a falsy payload from the client makes the operation raise \<^verbatim>\<open>NotFound\<close>, so it does
  not return a response.
\<close>

theorem empty_payload_not_found:
  "(\<not> truthy (get_paginated_catalogs cenv (req_user request) (GET request)) \<longrightarrow>
      fst (EnterpriseCatalogViewSet_list cenv request tr) = Inl (NotFound resource_missing_message))
   \<and> (\<not> truthy (get_catalog cenv (req_user request) cpk) \<longrightarrow>
      fst (EnterpriseCatalogViewSet_retrieve cenv request cpk tr)
        = Inl (NotFound resource_missing_message))
   \<and> (\<forall>ec. enterprise_customer_required cenv request = Inr ec \<longrightarrow>
      \<not> truthy (get_paginated_catalog_courses cenv (req_user request) (py_of_pk cpk) (GET request)) \<longrightarrow>
      fst (EnterpriseCatalogViewSet_courses cenv request cpk tr)
        = Inl (NotFound resource_missing_message))
   \<and> (\<forall>ec. get_object db penv (get_permissions s EnterpriseCustomerViewSet ''courses'')
             (EnterpriseCustomerViewSet_queryset table) request pk = Inr ec \<longrightarrow>
      truthy (py_of_catalog (catalog ec)) \<longrightarrow>
      \<not> truthy (get_paginated_catalog_courses cenv (req_user request)
                  (py_of_catalog (catalog ec)) (GET request)) \<longrightarrow>
      fst (EnterpriseCustomerViewSet_courses s db penv cenv table request pk tr)
        = Inl (NotFound (no_courses_message (name ec) (get_full_path request))))"
proof (intro conjI allI impI)
  assume "\<not> truthy (get_paginated_catalogs cenv (req_user request) (GET request))"
  then show "fst (EnterpriseCatalogViewSet_list cenv request tr)
               = Inl (NotFound resource_missing_message)"
    by (simp add: EnterpriseCatalogViewSet_list_def Let_def)
next
  assume "\<not> truthy (get_catalog cenv (req_user request) cpk)"
  then show "fst (EnterpriseCatalogViewSet_retrieve cenv request cpk tr)
               = Inl (NotFound resource_missing_message)"
    by (simp add: EnterpriseCatalogViewSet_retrieve_def Let_def)
next
  fix ec
  assume "enterprise_customer_required cenv request = Inr ec"
    and "\<not> truthy (get_paginated_catalog_courses cenv (req_user request) (py_of_pk cpk)
                     (GET request))"
  then show "fst (EnterpriseCatalogViewSet_courses cenv request cpk tr)
               = Inl (NotFound resource_missing_message)"
    by (simp add: EnterpriseCatalogViewSet_courses_def Let_def)
next
  fix ec
  assume resolved: "get_object db penv (get_permissions s EnterpriseCustomerViewSet ''courses'')
             (EnterpriseCustomerViewSet_queryset table) request pk = Inr ec"
    and cat: "truthy (py_of_catalog (catalog ec))"
    and empty: "\<not> truthy (get_paginated_catalog_courses cenv (req_user request)
                  (py_of_catalog (catalog ec)) (GET request))"
  from resolved have "check_object_permissions penv
       (get_permissions s EnterpriseCustomerViewSet ''courses'') request ec = Inr ()"
    by (rule get_object_checked)
  with resolved cat empty
  show "fst (EnterpriseCustomerViewSet_courses s db penv cenv table request pk tr)
          = Inl (NotFound (no_courses_message (name ec) (get_full_path request)))"
    by (simp add: EnterpriseCustomerViewSet_courses_def Let_def)
qed

theorem empty_payload_not_found_witness:
  "fst (EnterpriseCatalogViewSet_list example_cenv example_request [])
     = Inl (NotFound resource_missing_message)
   \<and> fst (EnterpriseCatalogViewSet_retrieve example_cenv example_request (Some ''8'') [])
     = Inl (NotFound resource_missing_message)
   \<and> fst (EnterpriseCatalogViewSet_courses example_cenv example_request (Some ''8'') [])
     = Inl (NotFound resource_missing_message)
   \<and> fst (EnterpriseCustomerViewSet_courses example_settings example_orm example_penv
            example_cenv example_table example_request ''h4'' [])
     = Inl (NotFound (no_courses_message ''Hooli'' ''/api/v1/x/?page=2''))"
proof -
  have c8: "py_of_catalog (catalog hooli) = PInt 8"
    by (simp add: hooli_def py_of_catalog_def)
  have k8: "py_of_pk (Some ''8'') = PStr ''8''"
    by (simp add: py_of_pk_def)
  have n: "name hooli = ''Hooli''" "get_full_path example_request = ''/api/v1/x/?page=2''"
    by (simp_all add: hooli_def example_request_def)
  show ?thesis
    using empty_payload_not_found [where cenv = example_cenv and request = example_request
            and tr = "[]" and cpk = "Some ''8''" and db = example_orm and penv = example_penv
            and s = example_settings and table = example_table and pk = "''h4''"]
    by (simp add: example_payloads example_get_object_hooli c8 k8 n)
qed

section \<open>Serializer selection\<close>

text \<open>
  C4. In the course-enrollment and the customer-user view sets,
  \<^verbatim>\<open>get_serializer_class\<close> returns the read-only serializer exactly when the method of
  the request is \<^verbatim>\<open>GET\<close>, and the write serializer exactly for every other method.
\<close>

theorem serializer_by_method:
  "(EnterpriseCourseEnrollmentViewSet_get_serializer_class request
      = EnterpriseCourseEnrollmentReadOnlySerializer \<longleftrightarrow> req_method request = ''GET'')
   \<and> (EnterpriseCourseEnrollmentViewSet_get_serializer_class request
      = EnterpriseCourseEnrollmentWriteSerializer \<longleftrightarrow> req_method request \<noteq> ''GET'')
   \<and> (EnterpriseCustomerUserViewSet_get_serializer_class request
      = EnterpriseCustomerUserReadOnlySerializer \<longleftrightarrow> req_method request = ''GET'')
   \<and> (EnterpriseCustomerUserViewSet_get_serializer_class request
      = EnterpriseCustomerUserWriteSerializer \<longleftrightarrow> req_method request \<noteq> ''GET'')"
  by (simp add: EnterpriseCourseEnrollmentViewSet_get_serializer_class_def
        EnterpriseCustomerUserViewSet_get_serializer_class_def)

theorem serializer_by_method_witness:
  "EnterpriseCourseEnrollmentViewSet_get_serializer_class example_request
     = EnterpriseCourseEnrollmentReadOnlySerializer
   \<and> EnterpriseCourseEnrollmentViewSet_get_serializer_class example_post
     = EnterpriseCourseEnrollmentWriteSerializer
   \<and> EnterpriseCustomerUserViewSet_get_serializer_class example_request
     = EnterpriseCustomerUserReadOnlySerializer
   \<and> EnterpriseCustomerUserViewSet_get_serializer_class example_post
     = EnterpriseCustomerUserWriteSerializer"
  using serializer_by_method [of example_request] serializer_by_method [of example_post]
  by (simp add: example_request_def example_post_def)

section \<open>The entitlements of a learner\<close>

text \<open>
  C5. When \<^verbatim>\<open>get_object\<close> resolves the learner, the entitlements action responds with
  a dictionary of exactly one key, \<^verbatim>\<open>entitlements\<close>, whose value is the list of the
  learner's entitlements that the consent-enforcement setting of the learner's customer
  allows.
\<close>

theorem entitlements_payload:
  assumes "get_object db penv (get_permissions s EnterpriseCustomerUserViewSet ''entitlements'')
             table request pk = Inr learner"
  shows "EnterpriseCustomerUserViewSet_entitlements s db penv allows table request pk =
           Inr (Response (PDict [(''entitlements'',
                  PList (filter (allows (enforce_data_sharing_consent (learner_customer learner))
                                   learner)
                           (available_entitlements learner)))]))"
  using assms
  by (simp add: EnterpriseCustomerUserViewSet_entitlements_def Let_def entitlements_def
        EnterpriseCustomerUserEntitlementSerializer_data_def
        EnterpriseCustomerUserEntitlementSerializer_fields_def)

theorem entitlements_payload_witness:
  "get_object example_learner_orm example_penv
     (get_permissions example_settings EnterpriseCustomerUserViewSet ''entitlements'')
     [example_learner] example_request ''1'' = Inr example_learner
   \<and> EnterpriseCustomerUserViewSet_entitlements example_settings example_learner_orm
       example_penv example_allows [example_learner] example_request ''1''
     = Inr (Response (PDict [(''entitlements'', PList [PInt 1, PInt 3])]))"
  using entitlements_payload [OF example_get_object_learner, of example_allows]
    example_get_object_learner
  by (simp add: example_learner_def acme_def example_allows_def)



section \<open>Logging of the not-found failures\<close>

text \<open>
  C6, as stated, fails. When the catalog service returns nothing for the list of catalogs,
  the list operation raises \<^verbatim>\<open>NotFound\<close> after logging a fixed line that names the
  endpoint \<^verbatim>\<open>"/catalogs/"\<close>; the path of the request is not in it.
\<close>

theorem not_found_log_counterexample:
  "EnterpriseCatalogViewSet_list example_cenv example_catalogs_request [] =
     (Inl (NotFound ''The resource you are looking for does not exist.''),
      [GetPaginatedCatalogs example_user [(''page'', ''2'')],
       LogError (''Unable to fetch API response from endpoint '' @ [CHR 0x22] @ ''/catalogs/''
                   @ [CHR 0x22] @ ''.'')])
   \<and> get_full_path example_catalogs_request = ''/enterprise/api/v1/catalogs/?page=2''
   \<and> \<not> contains (''Unable to fetch API response from endpoint '' @ [CHR 0x22] @ ''/catalogs/''
                   @ [CHR 0x22] @ ''.'')
          ''/enterprise/api/v1/catalogs/?page=2''"
  by (simp add: EnterpriseCatalogViewSet_list_def example_cenv_def example_catalogs_request_def
        resource_missing_message_def catalogs_log_message_def)

text \<open>
  C6, amended. Every \<^verbatim>\<open>NotFound\<close> that the views raise is preceded by one error-level
  log line, the last event of the trace. In the courses action of a customer (no catalog,
  or an empty payload) the line contains the customer's name and the full path of the
  request; in the courses operation of a catalog it contains the full path of the request;
  in the retrieve operation it contains \<^verbatim>\<open>/catalog/<pk>/\<close> for the requested primary
  key; in the list operation it is a fixed text.
\<close>

theorem not_found_is_logged:
  "(\<forall>ec. get_object db penv (get_permissions s EnterpriseCustomerViewSet ''courses'')
             (EnterpriseCustomerViewSet_queryset table) request pk = Inr ec \<longrightarrow>
      \<not> truthy (py_of_catalog (catalog ec)) \<longrightarrow>
      EnterpriseCustomerViewSet_courses s db penv cenv table request pk tr =
        (Inl (NotFound (no_catalog_message (name ec) (get_full_path request))),
         tr @ [LogError (no_catalog_message (name ec) (get_full_path request))])
      \<and> contains (no_catalog_message (name ec) (get_full_path request)) (name ec)
      \<and> contains (no_catalog_message (name ec) (get_full_path request)) (get_full_path request))
   \<and> (\<forall>ec. get_object db penv (get_permissions s EnterpriseCustomerViewSet ''courses'')
             (EnterpriseCustomerViewSet_queryset table) request pk = Inr ec \<longrightarrow>
      truthy (py_of_catalog (catalog ec)) \<longrightarrow>
      \<not> truthy (get_paginated_catalog_courses cenv (req_user request)
                  (py_of_catalog (catalog ec)) (GET request)) \<longrightarrow>
      EnterpriseCustomerViewSet_courses s db penv cenv table request pk tr =
        (Inl (NotFound (no_courses_message (name ec) (get_full_path request))),
         tr @ [GetPaginatedCatalogCourses (req_user request) (py_of_catalog (catalog ec))
                 (GET request),
               LogError (no_courses_message (name ec) (get_full_path request))])
      \<and> contains (no_courses_message (name ec) (get_full_path request)) (name ec)
      \<and> contains (no_courses_message (name ec) (get_full_path request)) (get_full_path request))
   \<and> (\<not> truthy (get_paginated_catalogs cenv (req_user request) (GET request)) \<longrightarrow>
      EnterpriseCatalogViewSet_list cenv request tr =
        (Inl (NotFound resource_missing_message),
         tr @ [GetPaginatedCatalogs (req_user request) (GET request),
               LogError catalogs_log_message]))
   \<and> (\<not> truthy (get_catalog cenv (req_user request) cpk) \<longrightarrow>
      EnterpriseCatalogViewSet_retrieve cenv request cpk tr =
        (Inl (NotFound resource_missing_message),
         tr @ [GetCatalog (req_user request) cpk, LogError (catalog_log_message cpk)])
      \<and> contains (catalog_log_message cpk) (''/catalog/'' @ str_pk cpk @ ''/''))
   \<and> (\<forall>ec. enterprise_customer_required cenv request = Inr ec \<longrightarrow>
      \<not> truthy (get_paginated_catalog_courses cenv (req_user request) (py_of_pk cpk)
                  (GET request)) \<longrightarrow>
      EnterpriseCatalogViewSet_courses cenv request cpk tr =
        (Inl (NotFound resource_missing_message),
         tr @ [GetPaginatedCatalogCourses (req_user request) (py_of_pk cpk) (GET request),
               LogError (catalog_courses_log_message (get_full_path request))])
      \<and> contains (catalog_courses_log_message (get_full_path request)) (get_full_path request))"
proof (intro conjI allI impI)
  fix ec
  assume resolved: "get_object db penv (get_permissions s EnterpriseCustomerViewSet ''courses'')
             (EnterpriseCustomerViewSet_queryset table) request pk = Inr ec"
    and falsy: "\<not> truthy (py_of_catalog (catalog ec))"
  from resolved have "check_object_permissions penv
       (get_permissions s EnterpriseCustomerViewSet ''courses'') request ec = Inr ()"
    by (rule get_object_checked)
  with resolved falsy
  show "EnterpriseCustomerViewSet_courses s db penv cenv table request pk tr =
        (Inl (NotFound (no_catalog_message (name ec) (get_full_path request))),
         tr @ [LogError (no_catalog_message (name ec) (get_full_path request))])"
    by (simp add: EnterpriseCustomerViewSet_courses_def Let_def)
next
  fix ec
  assume resolved: "get_object db penv (get_permissions s EnterpriseCustomerViewSet ''courses'')
             (EnterpriseCustomerViewSet_queryset table) request pk = Inr ec"
    and cat: "truthy (py_of_catalog (catalog ec))"
    and empty: "\<not> truthy (get_paginated_catalog_courses cenv (req_user request)
                  (py_of_catalog (catalog ec)) (GET request))"
  from resolved have "check_object_permissions penv
       (get_permissions s EnterpriseCustomerViewSet ''courses'') request ec = Inr ()"
    by (rule get_object_checked)
  with resolved cat empty
  show "EnterpriseCustomerViewSet_courses s db penv cenv table request pk tr =
        (Inl (NotFound (no_courses_message (name ec) (get_full_path request))),
         tr @ [GetPaginatedCatalogCourses (req_user request) (py_of_catalog (catalog ec))
                 (GET request),
               LogError (no_courses_message (name ec) (get_full_path request))])"
    by (simp add: EnterpriseCustomerViewSet_courses_def Let_def)
next
  assume "\<not> truthy (get_paginated_catalogs cenv (req_user request) (GET request))"
  then show "EnterpriseCatalogViewSet_list cenv request tr =
        (Inl (NotFound resource_missing_message),
         tr @ [GetPaginatedCatalogs (req_user request) (GET request),
               LogError catalogs_log_message])"
    by (simp add: EnterpriseCatalogViewSet_list_def Let_def)
next
  assume "\<not> truthy (get_catalog cenv (req_user request) cpk)"
  then show "EnterpriseCatalogViewSet_retrieve cenv request cpk tr =
        (Inl (NotFound resource_missing_message),
         tr @ [GetCatalog (req_user request) cpk, LogError (catalog_log_message cpk)])"
    by (simp add: EnterpriseCatalogViewSet_retrieve_def Let_def)
next
  fix ec
  assume "enterprise_customer_required cenv request = Inr ec"
    and "\<not> truthy (get_paginated_catalog_courses cenv (req_user request) (py_of_pk cpk)
                  (GET request))"
  then show "EnterpriseCatalogViewSet_courses cenv request cpk tr =
        (Inl (NotFound resource_missing_message),
         tr @ [GetPaginatedCatalogCourses (req_user request) (py_of_pk cpk) (GET request),
               LogError (catalog_courses_log_message (get_full_path request))])"
    by (simp add: EnterpriseCatalogViewSet_courses_def Let_def)
qed (rule no_catalog_message_contains no_courses_message_contains
       catalog_courses_log_message_contains catalog_log_message_contains)+

theorem not_found_is_logged_witness:
  "EnterpriseCustomerViewSet_courses example_settings example_orm example_penv example_cenv
     example_table example_request ''g2'' [] =
     (Inl (NotFound (no_catalog_message ''Globex'' ''/api/v1/x/?page=2'')),
      [LogError (no_catalog_message ''Globex'' ''/api/v1/x/?page=2'')])
   \<and> EnterpriseCustomerViewSet_courses example_settings example_orm example_penv example_cenv
     example_table example_request ''h4'' [] =
     (Inl (NotFound (no_courses_message ''Hooli'' ''/api/v1/x/?page=2'')),
      [GetPaginatedCatalogCourses example_user (PInt 8) [(''page'', ''2'')],
       LogError (no_courses_message ''Hooli'' ''/api/v1/x/?page=2'')])
   \<and> EnterpriseCatalogViewSet_list example_cenv example_request [] =
     (Inl (NotFound resource_missing_message),
      [GetPaginatedCatalogs example_user [(''page'', ''2'')], LogError catalogs_log_message])
   \<and> EnterpriseCatalogViewSet_retrieve example_cenv example_request (Some ''8'') [] =
     (Inl (NotFound resource_missing_message),
      [GetCatalog example_user (Some ''8''), LogError (catalog_log_message (Some ''8''))])
   \<and> contains (catalog_log_message (Some ''8'')) ''/catalog/8/''
   \<and> EnterpriseCatalogViewSet_courses example_cenv example_request (Some ''8'') [] =
     (Inl (NotFound resource_missing_message),
      [GetPaginatedCatalogCourses example_user (PStr ''8'') [(''page'', ''2'')],
       LogError (catalog_courses_log_message ''/api/v1/x/?page=2'')])
   \<and> contains (catalog_courses_log_message ''/api/v1/x/?page=2'') ''/api/v1/x/?page=2''"
proof -
  have c8: "py_of_catalog (catalog hooli) = PInt 8" "py_of_catalog (catalog globex) = PNone"
    by (simp_all add: hooli_def globex_def py_of_catalog_def)
  have k8: "py_of_pk (Some ''8'') = PStr ''8''" "str_pk (Some ''8'') = ''8''"
    by (simp_all add: py_of_pk_def str_pk_def)
  have n: "name hooli = ''Hooli''" "name globex = ''Globex''"
    "get_full_path example_request = ''/api/v1/x/?page=2''"
    "req_user example_request = example_user" "GET example_request = [(''page'', ''2'')]"
    by (simp_all add: hooli_def globex_def example_request_def)
  show ?thesis
    using not_found_is_logged [where cenv = example_cenv and request = example_request
            and tr = "[]" and cpk = "Some ''8''" and db = example_orm and penv = example_penv
            and s = example_settings and table = example_table and pk = "''g2''"]
      not_found_is_logged [where cenv = example_cenv and request = example_request
            and tr = "[]" and cpk = "Some ''8''" and db = example_orm and penv = example_penv
            and s = example_settings and table = example_table and pk = "''h4''"]
    by (simp add: example_payloads example_get_object_hooli example_get_object_globex c8 k8 n)
qed

section \<open>The policy of the view sets\<close>

text \<open>
  C7. For every class of the module and every action of it, the authentication classes
  are exactly JWT, Bearer and Session authentication, the throttle classes are exactly
  \<^verbatim>\<open>ServiceUserThrottle\<close>, and the permission classes include
  \<^verbatim>\<open>IsAuthenticated\<close>, so that a request passes the permission check only if its user
  is authenticated. None of it depends on the framework's settings.
\<close>

theorem shared_policy:
  assumes "c \<in> set module_classes"
  shows "view_attr s c a authentication_classes =
           Some [JwtAuthentication, BearerAuthentication, SessionAuthentication]
         \<and> view_attr s c a throttle_classes = Some [ServiceUserThrottle]
         \<and> IsAuthenticated \<in> set (get_permissions s c a)
         \<and> (check_permissions env (get_permissions s c a) r = Inr ()
              \<longrightarrow> is_authenticated (req_user r))"
proof -
  have auth: "view_attr s c a authentication_classes =
           Some [JwtAuthentication, BearerAuthentication, SessionAuthentication]"
    using class_authentication [OF assms, of s]
    by (simp add: view_attr_def no_attrs_def)
  have thr: "view_attr s c a throttle_classes = Some [ServiceUserThrottle]"
    using class_throttle [OF assms, of s]
    by (simp add: view_attr_def no_attrs_def)
  have mem: "IsAuthenticated \<in> set (get_permissions s c a)"
    using class_permissions [OF assms, of s]
    by (simp add: get_permissions_def view_attr_def no_attrs_def)
  have "list_all (\<lambda>p. has_permission env p r) (get_permissions s c a)
          \<Longrightarrow> is_authenticated (req_user r)"
    using mem by (auto simp: list_all_iff)
  then have "check_permissions env (get_permissions s c a) r = Inr ()
              \<longrightarrow> is_authenticated (req_user r)"
    by (simp add: check_permissions_def split: if_splits)
  with auth thr mem show ?thesis by simp
qed

theorem shared_policy_witness:
  "EnterpriseCustomerViewSet \<in> set module_classes
   \<and> view_attr example_settings EnterpriseCustomerViewSet ''courses'' authentication_classes =
       Some [JwtAuthentication, BearerAuthentication, SessionAuthentication]
   \<and> view_attr example_settings EnterpriseCustomerViewSet ''courses'' throttle_classes
       = Some [ServiceUserThrottle]
   \<and> IsAuthenticated
       \<in> set (get_permissions example_settings EnterpriseCustomerViewSet ''courses'')
   \<and> is_authenticated (req_user example_request)"
proof -
  have m: "EnterpriseCustomerViewSet \<in> set module_classes"
    by (simp add: module_classes_def)
  have ok: "check_permissions (example_penv :: enterprise_customer permission_env)
              (get_permissions example_settings EnterpriseCustomerViewSet ''courses'')
              example_request = Inr ()"
    by (simp add: example_courses_permissions check_permissions_def example_penv_def
          example_request_def example_user_def IsServiceUserOrReadOnly_has_permission_def
          SAFE_METHODS_def)
  show ?thesis
    using shared_policy [OF m, where s = example_settings and a = "''courses''"
            and env = "example_penv :: enterprise_customer permission_env"
            and r = example_request]
      m ok
    by simp
qed

text \<open>
  C8. For every class of the module that derives from the framework's read-write view
  set, the permission classes are \<^verbatim>\<open>IsAuthenticated\<close> and
  \<^verbatim>\<open>IsServiceUserOrReadOnly\<close>. A request that passes the checks of the framework
  before its action is by an authenticated user and, if its method is not a safe
  (read-only) one, by a service user or by the owner of the object it is on. Exactly: a
  request on the collection passes when its user is authenticated and it is read-only or
  its user is a service user; a request on an object that the queryset holds passes when
  its user is authenticated and it is read-only or its user is a service user or the owner
  of the object. So a read-only request needs an authenticated user and nothing more.
\<close>

theorem write_gate:
  assumes "c \<in> set module_classes" and "viewsets_ModelViewSet \<in> set (mro c)"
  shows "get_permissions s c a = [IsAuthenticated, IsServiceUserOrReadOnly]
         \<and> (\<forall>target. dispatch_checks db env (get_permissions s c a) rows r = Inr target \<longrightarrow>
               is_authenticated (req_user r)
               \<and> (req_method r \<in> set SAFE_METHODS \<or> is_service_user env (req_user r)
                   \<or> (\<exists>obj. target = Some obj \<and> is_owner env (req_user r) obj)))
         \<and> (kwargs_pk r = None \<longrightarrow>
               dispatch_checks db env (get_permissions s c a) rows r =
                 (if is_authenticated (req_user r)
                     \<and> (req_method r \<in> set SAFE_METHODS \<or> is_service_user env (req_user r))
                  then Inr None else Inl PermissionDenied))
         \<and> (\<forall>pk obj. kwargs_pk r = Some pk \<longrightarrow>
               find (\<lambda>x. pk_of db x = pk) (filter_queryset db r rows) = Some obj \<longrightarrow>
               dispatch_checks db env (get_permissions s c a) rows r =
                 (if is_authenticated (req_user r)
                     \<and> (req_method r \<in> set SAFE_METHODS \<or> is_service_user env (req_user r)
                         \<or> is_owner env (req_user r) obj)
                  then Inr (Some obj) else Inl PermissionDenied))"
proof -
  have "c \<noteq> EnterpriseCustomerViewSet"
    using assms(2) by (auto simp: mro_values)
  then have perms: "get_permissions s c a = [IsAuthenticated, IsServiceUserOrReadOnly]"
    using class_permissions [OF assms(1), of s] assms(2)
    by (simp add: get_permissions_def view_attr_def no_attrs_def)
  have collection: "kwargs_pk r = None \<longrightarrow>
      dispatch_checks db env (get_permissions s c a) rows r =
        (if is_authenticated (req_user r)
            \<and> (req_method r \<in> set SAFE_METHODS \<or> is_service_user env (req_user r))
         then Inr None else Inl PermissionDenied)"
    unfolding perms
  proof
    assume "kwargs_pk r = None"
    then show "dispatch_checks db env [IsAuthenticated, IsServiceUserOrReadOnly] rows r =
        (if is_authenticated (req_user r)
            \<and> (req_method r \<in> set SAFE_METHODS \<or> is_service_user env (req_user r))
         then Inr None else Inl PermissionDenied)"
      by (simp add: dispatch_checks_def check_permissions_def
            IsServiceUserOrReadOnly_has_permission_def)
  qed
  have object: "\<forall>pk obj. kwargs_pk r = Some pk \<longrightarrow>
      find (\<lambda>x. pk_of db x = pk) (filter_queryset db r rows) = Some obj \<longrightarrow>
      dispatch_checks db env (get_permissions s c a) rows r =
        (if is_authenticated (req_user r)
            \<and> (req_method r \<in> set SAFE_METHODS \<or> is_service_user env (req_user r)
                \<or> is_owner env (req_user r) obj)
         then Inr (Some obj) else Inl PermissionDenied)"
    unfolding perms
    by (simp add: dispatch_checks_def check_permissions_def get_object_def
          check_object_permissions_def IsServiceUserOrReadOnly_has_permission_def
          IsServiceUserOrReadOnly_has_object_permission_def)
  have gated: "\<forall>target.
      dispatch_checks db env (get_permissions s c a) rows r = Inr target \<longrightarrow>
        is_authenticated (req_user r)
        \<and> (req_method r \<in> set SAFE_METHODS \<or> is_service_user env (req_user r)
            \<or> (\<exists>obj. target = Some obj \<and> is_owner env (req_user r) obj))"
    unfolding perms
    by (auto simp: dispatch_checks_def check_permissions_def get_object_def
          check_object_permissions_def IsServiceUserOrReadOnly_has_permission_def
          IsServiceUserOrReadOnly_has_object_permission_def
          split: if_splits option.splits sum.splits)
  show ?thesis
    by (intro conjI) (rule perms, rule gated, rule collection, rule object)
qed

theorem write_gate_witness:
  "EnterpriseCourseEnrollmentViewSet \<in> set module_classes
   \<and> viewsets_ModelViewSet \<in> set (mro EnterpriseCourseEnrollmentViewSet)
   \<and> get_permissions example_settings EnterpriseCourseEnrollmentViewSet ''create''
       = [IsAuthenticated, IsServiceUserOrReadOnly]
   \<and> dispatch_checks example_enrollment_orm example_enrollment_penv
        (get_permissions example_settings EnterpriseCourseEnrollmentViewSet ''create'')
        [enrollment5, enrollment6] example_create = Inl PermissionDenied
   \<and> dispatch_checks example_enrollment_orm example_enrollment_penv
        (get_permissions example_settings EnterpriseCourseEnrollmentViewSet ''update'')
        [enrollment5, enrollment6] example_update5 = Inr (Some enrollment5)
   \<and> dispatch_checks example_enrollment_orm example_enrollment_penv
        (get_permissions example_settings EnterpriseCourseEnrollmentViewSet ''update'')
        [enrollment5, enrollment6] example_update6 = Inl PermissionDenied
   \<and> dispatch_checks example_enrollment_orm example_enrollment_penv
        (get_permissions example_settings EnterpriseCourseEnrollmentViewSet ''retrieve'')
        [enrollment5, enrollment6] example_retrieve6 = Inr (Some enrollment6)"
proof -
  have m: "EnterpriseCourseEnrollmentViewSet \<in> set module_classes"
    by (simp add: module_classes_def)
  have w: "viewsets_ModelViewSet \<in> set (mro EnterpriseCourseEnrollmentViewSet)"
    by (simp add: mro_values)
  have f5: "find (\<lambda>x. pk_of example_enrollment_orm x = ''5'')
              (filter_queryset example_enrollment_orm example_update5 [enrollment5, enrollment6])
            = Some enrollment5"
    by (simp add: filter_queryset_def example_enrollment_orm_def enrollment5_def)
  have f6: "find (\<lambda>x. pk_of example_enrollment_orm x = ''6'')
              (filter_queryset example_enrollment_orm r [enrollment5, enrollment6])
            = Some enrollment6" for r
    by (simp add: filter_queryset_def example_enrollment_orm_def enrollment5_def
          enrollment6_def)
  have k: "kwargs_pk example_create = None" "kwargs_pk example_update5 = Some ''5''"
    "kwargs_pk example_update6 = Some ''6''" "kwargs_pk example_retrieve6 = Some ''6''"
    by (simp_all add: example_create_def example_update5_def example_update6_def
          example_retrieve6_def)
  have u: "is_authenticated (req_user example_create)"
    "\<not> is_service_user example_enrollment_penv (req_user example_create)"
    "req_method example_create \<notin> set SAFE_METHODS"
    "is_authenticated (req_user example_update5)"
    "is_owner example_enrollment_penv (req_user example_update5) enrollment5"
    "is_authenticated (req_user example_update6)"
    "\<not> is_service_user example_enrollment_penv (req_user example_update6)"
    "\<not> is_owner example_enrollment_penv (req_user example_update6) enrollment6"
    "req_method example_update6 \<notin> set SAFE_METHODS"
    "is_authenticated (req_user example_retrieve6)"
    "req_method example_retrieve6 \<in> set SAFE_METHODS"
    by (simp_all add: example_create_def example_update5_def example_update6_def
          example_retrieve6_def example_user_def example_enrollment_penv_def
          enrollment5_def enrollment6_def SAFE_METHODS_def)
  note gate = write_gate [OF m w, where s = example_settings
      and db = example_enrollment_orm and env = example_enrollment_penv
      and rows = "[enrollment5, enrollment6]"]
  have p: "get_permissions example_settings EnterpriseCourseEnrollmentViewSet a
             = [IsAuthenticated, IsServiceUserOrReadOnly]" for a
    using gate [where a = a and r = example_create] by simp
  have create: "dispatch_checks example_enrollment_orm example_enrollment_penv
        (get_permissions example_settings EnterpriseCourseEnrollmentViewSet ''create'')
        [enrollment5, enrollment6] example_create = Inl PermissionDenied"
    using gate [where a = "''create''" and r = example_create] k(1) u(1-3) by (simp add: p)
  have update5: "dispatch_checks example_enrollment_orm example_enrollment_penv
        (get_permissions example_settings EnterpriseCourseEnrollmentViewSet ''update'')
        [enrollment5, enrollment6] example_update5 = Inr (Some enrollment5)"
    using gate [where a = "''update''" and r = example_update5] k(2) f5 u(4,5) by (simp add: p)
  have update6: "dispatch_checks example_enrollment_orm example_enrollment_penv
        (get_permissions example_settings EnterpriseCourseEnrollmentViewSet ''update'')
        [enrollment5, enrollment6] example_update6 = Inl PermissionDenied"
    using gate [where a = "''update''" and r = example_update6] k(3) f6 u(6-9) by (simp add: p)
  have retrieve6: "dispatch_checks example_enrollment_orm example_enrollment_penv
        (get_permissions example_settings EnterpriseCourseEnrollmentViewSet ''retrieve'')
        [enrollment5, enrollment6] example_retrieve6 = Inr (Some enrollment6)"
    using gate [where a = "''retrieve''" and r = example_retrieve6] k(4) f6 u(10,11) by (simp add: p)
  from m w p create update5 update6 retrieve6 show ?thesis
    by simp
qed

text \<open>
  C9. The queryset of the enterprise-customer view set is the one of the manager of active
  customers: every row that can be listed is an active row of the table, every customer
  that \<^verbatim>\<open>get_object\<close> resolves is active, and when no active customer has the requested
  primary key the courses action ends with a 404 and does nothing else.
\<close>

theorem only_active_customers:
  "getattr s EnterpriseCustomerViewSet queryset = Some EnterpriseCustomer_active_customers_all
   \<and> (\<forall>c \<in> set (filter_queryset db r (EnterpriseCustomerViewSet_queryset table)).
         active c \<and> c \<in> set table)
   \<and> (\<forall>c. get_object db penv perms (EnterpriseCustomerViewSet_queryset table) r pk = Inr c
         \<longrightarrow> active c \<and> c \<in> set table)
   \<and> ((\<forall>c \<in> set table. pk_of db c = pk \<longrightarrow> \<not> active c)
         \<longrightarrow> EnterpriseCustomerViewSet_courses s db penv cenv table r pk tr = (Inl Http404, tr))"
proof (intro conjI ballI allI impI)
  show "getattr s EnterpriseCustomerViewSet queryset = Some EnterpriseCustomer_active_customers_all"
    by (simp add: getattr_def mro_values with_fields_def no_attrs_def)
next
  fix c assume "c \<in> set (filter_queryset db r (EnterpriseCustomerViewSet_queryset table))"
  then show "active c" "c \<in> set table"
    by (simp_all add: filter_queryset_def EnterpriseCustomerViewSet_queryset_def
          active_customers_all_def)
next
  fix c assume "get_object db penv perms (EnterpriseCustomerViewSet_queryset table) r pk = Inr c"
  then have "c \<in> set (EnterpriseCustomerViewSet_queryset table)"
    by (drule_tac get_object_Inr) simp
  then show "active c" "c \<in> set table"
    by (simp_all add: EnterpriseCustomerViewSet_queryset_def active_customers_all_def)
next
  assume none: "\<forall>c \<in> set table. pk_of db c = pk \<longrightarrow> \<not> active c"
  have "find (\<lambda>obj. pk_of db obj = pk)
          (filter_queryset db r (EnterpriseCustomerViewSet_queryset table)) = None"
    using none
    by (auto simp: find_None_iff filter_queryset_def EnterpriseCustomerViewSet_queryset_def
          active_customers_all_def)
  then show "EnterpriseCustomerViewSet_courses s db penv cenv table r pk tr = (Inl Http404, tr)"
    by (simp add: EnterpriseCustomerViewSet_courses_def get_object_def Let_def)
qed

theorem only_active_customers_witness:
  "initech \<in> set example_table \<and> pk_of example_orm initech = ''i3'' \<and> \<not> active initech
   \<and> EnterpriseCustomerViewSet_courses example_settings example_orm example_penv example_cenv
        example_table example_request ''i3'' [] = (Inl Http404, [])
   \<and> active acme"
proof -
  have none: "\<forall>c \<in> set example_table. pk_of example_orm c = ''i3'' \<longrightarrow> \<not> active c"
    by (simp add: example_table_def example_orm_def acme_def globex_def initech_def hooli_def)
  show ?thesis
    using only_active_customers [where s = example_settings and db = example_orm
            and r = example_request and table = example_table and penv = example_penv
            and perms = "get_permissions example_settings EnterpriseCustomerViewSet ''courses''"
            and pk = "''a1''" and cenv = example_cenv and tr = "[]"]
      only_active_customers [where s = example_settings and db = example_orm
            and r = example_request and table = example_table and penv = example_penv
            and perms = "get_permissions example_settings EnterpriseCustomerViewSet ''courses''"
            and pk = "''i3''" and cenv = example_cenv and tr = "[]"]
      none example_get_object_acme
    by (simp add: example_table_def example_orm_def initech_def)
qed

text \<open>
  C10. For every class of the module the fields on which filtering is allowed are the
  fields on which ordering is allowed; for every model view set (a class with a queryset)
  both are the \<^verbatim>\<open>FIELDS\<close> tuple of the class.
\<close>

theorem filter_fields_are_ordering_fields:
  assumes "c \<in> set module_classes"
  shows "getattr s c filter_fields = getattr s c ordering_fields
         \<and> (getattr s c queryset \<noteq> None \<longrightarrow>
              (\<exists>fs. getattr s c FIELDS = Some fs \<and> getattr s c filter_fields = Some fs
                    \<and> getattr s c ordering_fields = Some fs))"
  using assms
  by (rule module_class_cases)
     (simp_all add: getattr_def mro_values no_attrs_def with_fields_def framework_attrs_def)

theorem filter_fields_are_ordering_fields_witness:
  "SiteViewSet \<in> set module_classes
   \<and> getattr example_settings SiteViewSet queryset \<noteq> None
   \<and> getattr example_settings SiteViewSet filter_fields = Some [''domain'', ''name'']
   \<and> getattr example_settings SiteViewSet ordering_fields = Some [''domain'', ''name'']"
proof -
  have m: "SiteViewSet \<in> set module_classes"
    by (simp add: module_classes_def)
  have q: "getattr example_settings SiteViewSet queryset \<noteq> None"
    by (simp add: getattr_def mro_values with_fields_def no_attrs_def)
  have f: "getattr example_settings SiteViewSet FIELDS = Some [''domain'', ''name'']"
    by (simp add: getattr_def mro_values with_fields_def no_attrs_def)
  show ?thesis
    using filter_fields_are_ordering_fields [OF m, of example_settings] m q f
    by auto
qed

end
